theory Spec2Isabelle
  imports Main "HOL-Library.AList"
begin

section \<open>Values shared by the two classes\<close>

text \<open>
  A JavaScript object used as a dictionary (\<open>{[key: string]: T}\<close>) is an association
  list: \<open>map_of\<close> reads a property, \<open>AList.update\<close> is the assignment \<open>o[k] = v\<close>
  (an existing property keeps its place, a new one is appended), and the list order is the
  order in which \<open>for ... in\<close> and \<open>Object.keys\<close> visit the properties.
\<close>

type_synonym 'v dict = "(string \<times> 'v) list"

text \<open>
  Everything the two classes can throw or reject with.  \<open>Remote\<close> is a rejection coming
  from a collaborator (popsicle, ProjectAPI), \<open>Callback\<close> an exception thrown by the
  caller's callback, \<open>TypeError\<close> a property access on \<open>undefined\<close>.
\<close>

datatype error =
    Unauthenticated
  | NoSigningKey string string
  | TimeLimit
  | Remote string
  | Callback string
  | TypeError

fun message :: "error \<Rightarrow> string" where
  "message Unauthenticated = ''API access has not been set up''"
| "message (NoSigningKey platform project) =
     ''There is no signing key for the '' @ platform @ '' platform in the project '' @ project"
| "message TimeLimit =
     ''It wasn't possible to compile the project in the time limit frame.''"
| "message (Remote m) = m"
| "message (Callback m) = m"
| "message TypeError = ''Cannot read properties of undefined''"


section \<open>The project (src/unnamed/part_000)\<close>

subsection \<open>Collaborators that are imported, not defined, by the file\<close>

text \<open>
  Modelled from the spec: the enumeration \<open>Status\<close> (enums/e-status) is imported by the
  file and not among the sources.  The code names \<open>Status.Compiling\<close> and
  \<open>Status.Waiting\<close>; the spec lists Queued, Waiting, Compiling, Completed and Error as
  members of a larger closed set, so one more constructor stands for the remaining ones.
\<close>

datatype Status = Queued | Waiting | Compiling | Completed | Errored | OtherStatus string

text \<open>
  Modelled from the spec: \<open>Compilation\<close> and \<open>SigningKey\<close> (compilation, signing-key) are
  imported classes.  The project reads \<open>status\<close> of the first and \<open>id\<close> and \<open>platform\<close>
  of the second; the spec gives them "auxiliary data" and "metadata" besides.
\<close>

record Compilation =
  c_platform :: string
  status :: Status
  c_data :: string

record SigningKey =
  k_id :: string
  k_platform :: string
  k_data :: string

text \<open>
  \<open>IProjectData\<close>, the payload of the remote: the fields \<open>init\<close> reads.  The entries of
  \<open>keys\<close> are handed to the constructor of \<open>SigningKey\<close> unread, so their type is left
  open as a string.  The three dates are epoch milliseconds.
\<close>

record IProjectData =
  d_id :: string
  d_title :: string
  d_package :: string
  d_version :: string
  d_source :: string
  d_origin :: "string dict"
  d_date_created :: int
  d_date_updated :: int
  d_date_compiled :: int
  d_error :: "string dict"
  d_platforms :: "string list"
  d_keys :: "string dict"

text \<open>
  \<open>new Date(n)\<close> for a number: the time value \<open>n\<close>, or an invalid date (\<open>None\<close>) beyond
  the range of 8.64e15 milliseconds around the epoch.
\<close>

type_synonym Date = "int option"

definition newDate :: "int \<Rightarrow> Date" where
  "newDate n = (if \<bar>n\<bar> \<le> 8640000000000000 then Some n else None)"

text \<open>The calls the project makes on \<open>ProjectAPI\<close>, with their arguments.\<close>

datatype call =
    GetUnprocessed string
  | GetConfigXml string
  | UpdateZipUnprocessed string string
  | UpdateURLUnprocessed string string
  | UpdateRepositoryUnprocessed string string "string option"
  | UpdateConfigXmlUnprocessed string string
  | AssignSigningKey string string
  | RemoveSigningKey string string

text \<open>
  What lies outside the project.  The remote answers a call given the calls made before
  it: a payload, a text or nothing, or a rejection (\<open>Inl\<close>, \<open>Some\<close>).  \<open>clock\<close> is the
  value of the \<open>k\<close>-th reading of \<open>Date.now()\<close>.  The constructors of the imported
  classes and the document type \<open>'x\<close> of cocoon-xml-sugar are parameters.
\<close>

record 'x env =
  clock :: "nat \<Rightarrow> int"
  projectReply :: "call list \<Rightarrow> call \<Rightarrow> string + IProjectData"
  textReply :: "call list \<Rightarrow> call \<Rightarrow> string + string"
  voidReply :: "call list \<Rightarrow> call \<Rightarrow> string option"
  newCompilation :: "IProjectData \<Rightarrow> string \<Rightarrow> Compilation"
  newSigningKey :: "string \<Rightarrow> string \<Rightarrow> SigningKey"
  newXMLSugar :: "string \<Rightarrow> 'x"
  xml :: "'x \<Rightarrow> string"

text \<open>
  The observable trace: the remote calls made so far, the number of clock readings, the
  number of callback invocations and the timers awaited.
\<close>

record world =
  calls :: "call list"
  reads :: nat
  ticks :: nat
  sleeps :: "int list"

definition dateNow :: "'x env \<Rightarrow> world \<Rightarrow> int \<times> world" where
  "dateNow env w = (clock env (reads w), w\<lparr>reads := Suc (reads w)\<rparr>)"

definition awaitProject :: "'x env \<Rightarrow> call \<Rightarrow> world \<Rightarrow> (error + IProjectData) \<times> world" where
  "awaitProject env c w =
     (case projectReply env (calls w) c of
        Inl m \<Rightarrow> (Inl (Remote m), w\<lparr>calls := calls w @ [c]\<rparr>)
      | Inr d \<Rightarrow> (Inr d, w\<lparr>calls := calls w @ [c]\<rparr>))"

definition awaitText :: "'x env \<Rightarrow> call \<Rightarrow> world \<Rightarrow> (error + string) \<times> world" where
  "awaitText env c w =
     (case textReply env (calls w) c of
        Inl m \<Rightarrow> (Inl (Remote m), w\<lparr>calls := calls w @ [c]\<rparr>)
      | Inr t \<Rightarrow> (Inr t, w\<lparr>calls := calls w @ [c]\<rparr>))"

definition awaitVoid :: "'x env \<Rightarrow> call \<Rightarrow> world \<Rightarrow> (error + unit) \<times> world" where
  "awaitVoid env c w =
     (case voidReply env (calls w) c of
        Some m \<Rightarrow> (Inl (Remote m), w\<lparr>calls := calls w @ [c]\<rparr>)
      | None \<Rightarrow> (Inr (), w\<lparr>calls := calls w @ [c]\<rparr>))"


subsection \<open>The class\<close>

text \<open>
  The private fields.  A slot of \<open>_keys\<close> can hold \<open>undefined\<close> (\<open>None\<close>), which is what
  \<open>removeSigningKey\<close> stores; \<open>configXML\<close> is \<open>null\<close> (\<open>None\<close>) or a document.
\<close>

record 'x Project =
  p_id :: string
  p_name :: string
  p_bundleID :: string
  p_version :: string
  p_origin :: "string dict"
  p_dateCompiled :: Date
  p_dateCreated :: Date
  p_dateUpdated :: Date
  p_compilations :: "Compilation dict"
  p_errors :: "string dict"
  p_keys :: "SigningKey option dict"
  p_sourceURL :: string
  configXML :: "'x option"

definition DEFAULT_WAIT_TIME :: int where
  "DEFAULT_WAIT_TIME = 10000"

definition MAX_WAIT_TIME :: int where
  "MAX_WAIT_TIME = 3600000"

text \<open>The two loops of \<open>init\<close>, over \<open>projectData.platforms\<close> and \<open>Object.keys(projectData.keys)\<close>.\<close>

definition initCompilations :: "'x env \<Rightarrow> IProjectData \<Rightarrow> Compilation dict" where
  "initCompilations env d =
     foldl (\<lambda>m platform. AList.update platform (newCompilation env d platform) m) [] (d_platforms d)"

definition initKeys :: "'x env \<Rightarrow> IProjectData \<Rightarrow> SigningKey option dict" where
  "initKeys env d =
     foldl (\<lambda>m platform.
              case map_of (d_keys d) platform of
                Some k \<Rightarrow> AList.update platform (Some (newSigningKey env k platform)) m
              | None \<Rightarrow> m)
       [] (map fst (d_keys d))"

definition init :: "'x env \<Rightarrow> IProjectData \<Rightarrow> 'x Project \<Rightarrow> 'x Project" where
  "init env d p =
     p\<lparr> p_id := d_id d,
        p_name := d_title d,
        p_bundleID := d_package d,
        p_version := d_version d,
        p_sourceURL := d_source d,
        p_origin := d_origin d,
        p_dateCreated := newDate (d_date_created d),
        p_dateUpdated := newDate (d_date_updated d),
        p_dateCompiled := newDate (d_date_compiled d),
        p_errors := d_error d,
        configXML := None,
        p_compilations := initCompilations env d,
        p_keys := initKeys env d \<rparr>"

text \<open>
  The constructor runs \<open>init\<close> on the new object, whose fields are all still undefined;
  \<open>init\<close> assigns every one of them, so the placeholder values below are never read.
\<close>

definition newProject :: "'x env \<Rightarrow> IProjectData \<Rightarrow> 'x Project" where
  "newProject env d =
     init env d
       \<lparr> p_id = [], p_name = [], p_bundleID = [], p_version = [], p_origin = [],
         p_dateCompiled = None, p_dateCreated = None, p_dateUpdated = None,
         p_compilations = [], p_errors = [], p_keys = [], p_sourceURL = [],
         configXML = None \<rparr>"

text \<open>\<open>isCompiling\<close>: the \<open>for ... in\<close> loop with its early return.\<close>

fun anyOngoing :: "Compilation dict \<Rightarrow> bool" where
  "anyOngoing [] = False"
| "anyOngoing ((platform, c) # rest) =
     (if status c = Compiling \<or> status c = Waiting then True else anyOngoing rest)"

definition isCompiling :: "'x Project \<Rightarrow> bool" where
  "isCompiling p = anyOngoing (p_compilations p)"

text \<open>
  An asynchronous method returns its result, or the error it rejects with, together with
  the object and the trace as they are when the promise settles.
\<close>

type_synonym ('a, 'x) outcome = "(error + 'a) \<times> 'x Project \<times> world"

definition getConfigXML :: "'x env \<Rightarrow> 'x Project \<Rightarrow> world \<Rightarrow> ('x, 'x) outcome" where
  "getConfigXML env p w =
     (case configXML p of
        Some doc \<Rightarrow> (Inr doc, p, w)
      | None \<Rightarrow>
          (case awaitText env (GetConfigXml (p_id p)) w of
             (Inl e, w') \<Rightarrow> (Inl e, p, w')
           | (Inr text, w') \<Rightarrow>
               (Inr (newXMLSugar env text), p\<lparr>configXML := Some (newXMLSugar env text)\<rparr>, w')))"

text \<open>\<open>this.init(await ProjectAPI.f(this._id, ...))\<close>, the body shared by five methods.\<close>

definition initFrom :: "'x env \<Rightarrow> call \<Rightarrow> 'x Project \<Rightarrow> world \<Rightarrow> (unit, 'x) outcome" where
  "initFrom env c p w =
     (case awaitProject env c w of
        (Inl e, w') \<Rightarrow> (Inl e, p, w')
      | (Inr d, w') \<Rightarrow> (Inr (), init env d p, w'))"

definition updateZip :: "'x env \<Rightarrow> string \<Rightarrow> 'x Project \<Rightarrow> world \<Rightarrow> (unit, 'x) outcome" where
  "updateZip env file p w = initFrom env (UpdateZipUnprocessed (p_id p) file) p w"

definition updateURL :: "'x env \<Rightarrow> string \<Rightarrow> 'x Project \<Rightarrow> world \<Rightarrow> (unit, 'x) outcome" where
  "updateURL env url p w = initFrom env (UpdateURLUnprocessed (p_id p) url) p w"

definition updateRepository ::
  "'x env \<Rightarrow> string \<Rightarrow> string option \<Rightarrow> 'x Project \<Rightarrow> world \<Rightarrow> (unit, 'x) outcome" where
  "updateRepository env url branch p w =
     initFrom env (UpdateRepositoryUnprocessed (p_id p) url branch) p w"

definition updateConfigXml :: "'x env \<Rightarrow> string \<Rightarrow> 'x Project \<Rightarrow> world \<Rightarrow> (unit, 'x) outcome" where
  "updateConfigXml env text p w =
     (case initFrom env (UpdateConfigXmlUnprocessed (p_id p) text) p w of
        (Inl e, p', w') \<Rightarrow> (Inl e, p', w')
      | (Inr u, p', w') \<Rightarrow> (Inr (), p'\<lparr>configXML := Some (newXMLSugar env text)\<rparr>, w'))"

definition refresh :: "'x env \<Rightarrow> 'x Project \<Rightarrow> world \<Rightarrow> (unit, 'x) outcome" where
  "refresh env p w = initFrom env (GetUnprocessed (p_id p)) p w"

definition refreshCocoon :: "'x env \<Rightarrow> 'x Project \<Rightarrow> world \<Rightarrow> (unit, 'x) outcome" where
  "refreshCocoon env p w =
     (case getConfigXML env p w of
        (Inl e, p', w') \<Rightarrow> (Inl e, p', w')
      | (Inr doc, p', w') \<Rightarrow> updateConfigXml env (xml env doc) p' w')"

text \<open>
  The read \<open>this._keys[platform]\<close>: a signing key, or \<open>undefined\<close> for a missing slot and
  for a slot holding \<open>undefined\<close> alike.  \<open>Platform\<close> is an enumeration of strings, none
  of them the name of a property that every object inherits.
\<close>

definition keyAt :: "'x Project \<Rightarrow> string \<Rightarrow> SigningKey option" where
  "keyAt p platform = (case map_of (p_keys p) platform of Some slot \<Rightarrow> slot | None \<Rightarrow> None)"

definition assignSigningKey ::
  "'x env \<Rightarrow> SigningKey \<Rightarrow> 'x Project \<Rightarrow> world \<Rightarrow> (unit, 'x) outcome" where
  "assignSigningKey env signingKey p w =
     (case awaitVoid env (AssignSigningKey (p_id p) (k_id signingKey)) w of
        (Inl e, w') \<Rightarrow> (Inl e, p, w')
      | (Inr u, w') \<Rightarrow>
          (Inr (),
           p\<lparr>p_keys := AList.update (k_platform signingKey) (Some signingKey) (p_keys p)\<rparr>,
           w'))"

definition removeSigningKey ::
  "'x env \<Rightarrow> string \<Rightarrow> 'x Project \<Rightarrow> world \<Rightarrow> (unit, 'x) outcome" where
  "removeSigningKey env platform p w =
     (case keyAt p platform of
        Some key \<Rightarrow>
          (case awaitVoid env (RemoveSigningKey (p_id p) (k_id key)) w of
             (Inl e, w') \<Rightarrow> (Inl e, p, w')
           | (Inr u, w') \<Rightarrow> (Inr (), p\<lparr>p_keys := AList.update platform None (p_keys p)\<rparr>, w'))
      | None \<Rightarrow> (Inl (NoSigningKey platform (p_id p)), p, w))"

text \<open>
  \<open>refreshUntilCompleted\<close>.  The callback is the caller's code: its \<open>k\<close>-th invocation
  returns (\<open>None\<close>) or throws; what it returns is wrapped in a promise nobody awaits.
  The timer is recorded and cannot fail.
\<close>

definition invoke :: "(nat \<Rightarrow> string option) \<Rightarrow> world \<Rightarrow> (error + unit) \<times> world" where
  "invoke callback w =
     (case callback (ticks w) of
        Some m \<Rightarrow> (Inl (Callback m), w\<lparr>ticks := Suc (ticks w)\<rparr>)
      | None \<Rightarrow> (Inr (), w\<lparr>ticks := Suc (ticks w)\<rparr>))"

definition setTimeout :: "int \<Rightarrow> world \<Rightarrow> world" where
  "setTimeout interval w = w\<lparr>sleeps := sleeps w @ [interval]\<rparr>"

text \<open>
  The \<open>while\<close> loop.  Nothing bounds the number of its rounds, so the model counts them:
  \<open>fuel\<close> is the number of rounds allowed, and \<open>None\<close> says that the loop wanted one
  more.  \<open>&&\<close> reads the clock only when \<open>isCompiling()\<close> holds.
\<close>

fun pollLoop ::
  "nat \<Rightarrow> 'x env \<Rightarrow> (nat \<Rightarrow> string option) \<Rightarrow> int \<Rightarrow> int \<Rightarrow> 'x Project \<Rightarrow> world
     \<Rightarrow> (unit, 'x) outcome option" where
  "pollLoop fuel env callback interval limitTime p w =
     (if \<not> isCompiling p then Some (Inr (), p, w)
      else
        (case dateNow env w of
           (t, w1) \<Rightarrow>
             if \<not> t < limitTime then Some (Inr (), p, w1)
             else
               (case fuel of
                  0 \<Rightarrow> None
                | Suc n \<Rightarrow>
                    (case refresh env p (setTimeout interval w1) of
                       (Inl e, p', w2) \<Rightarrow> Some (Inl e, p', w2)
                     | (Inr u, p', w2) \<Rightarrow>
                         (case invoke callback w2 of
                            (Inl e, w3) \<Rightarrow> Some (Inl e, p', w3)
                          | (Inr u', w3) \<Rightarrow> pollLoop n env callback interval limitTime p' w3)))))"

declare pollLoop.simps [simp del]

text \<open>
  Lines 275 to 281: the first \<open>refresh\<close>, the first callback and the loop.  \<open>Inr\<close> is
  the loop left through its condition.
\<close>

definition polling ::
  "nat \<Rightarrow> 'x env \<Rightarrow> (nat \<Rightarrow> string option) \<Rightarrow> int \<Rightarrow> int \<Rightarrow> 'x Project \<Rightarrow> world
     \<Rightarrow> (unit, 'x) outcome option" where
  "polling fuel env callback interval limitTime p w =
     (case refresh env p w of
        (Inl e, p1, w1) \<Rightarrow> Some (Inl e, p1, w1)
      | (Inr u, p1, w1) \<Rightarrow>
          (case invoke callback w1 of
             (Inl e, w2) \<Rightarrow> Some (Inl e, p1, w2)
           | (Inr u', w2) \<Rightarrow> pollLoop fuel env callback interval limitTime p1 w2))"

text \<open>The parameter defaults apply to an argument left out (\<open>None\<close>).\<close>

definition refreshUntilCompleted ::
  "nat \<Rightarrow> 'x env \<Rightarrow> (nat \<Rightarrow> string option) option \<Rightarrow> int option \<Rightarrow> int option
     \<Rightarrow> 'x Project \<Rightarrow> world \<Rightarrow> (unit, 'x) outcome option" where
  "refreshUntilCompleted fuel env callback interval maxWaitTime p w =
     (let cb = (case callback of None \<Rightarrow> (\<lambda>k. None) | Some f \<Rightarrow> f);
          iv = (case interval of None \<Rightarrow> DEFAULT_WAIT_TIME | Some i \<Rightarrow> i);
          mw = (case maxWaitTime of None \<Rightarrow> MAX_WAIT_TIME | Some m \<Rightarrow> m)
      in
        (case dateNow env w of
           (t0, w0) \<Rightarrow>
             (case polling fuel env cb iv (t0 + mw) p w0 of
                None \<Rightarrow> None
              | Some (Inl e, p3, w3) \<Rightarrow> Some (Inl e, p3, w3)
              | Some (Inr u, p3, w3) \<Rightarrow>
                  (case dateNow env w3 of
                     (t, w4) \<Rightarrow>
                       if t < t0 + mw then Some (Inl TimeLimit, p3, w4)
                       else Some (Inr (), p3, w4)))))"


section \<open>The session (src/src/lib/cocoon-api.ts)\<close>

subsection \<open>Collaborators that are imported, not defined, by the file\<close>

text \<open>
  What the class reads of a credential storage through \<open>ICredentialStorage\<close>:
  \<open>getAccessToken()\<close>, \<open>getRefreshToken()\<close> and \<open>expireDate\<close>, each of which can be
  \<open>undefined\<close> (\<open>None\<close>).  The expiry is in epoch milliseconds.
\<close>

record CredentialStorage =
  accessToken :: "string option"
  refreshToken :: "string option"
  expireDate :: "int option"

datatype Middleware = Parse string | Status_plugin | Plugin string

text \<open>
  The options of popsicle that the class sets or passes on; the property \<open>method\<close> is
  the field \<open>http_method\<close>.
\<close>

record RequestOptions =
  http_method :: string
  url :: string
  headers :: "string dict option"
  body :: "string option"

text \<open>
  A response of popsicle: its status, the three properties of the parsed body that
  \<open>refreshAPIAccess\<close> reads, and the rest of the body as text.
\<close>

record Response =
  res_status :: nat
  access_token :: "string option"
  refresh_token :: "string option"
  expires_in :: "int option"
  res_text :: string

text \<open>
  What lies outside the class.  \<open>now\<close> is the value of the \<open>k\<close>-th reading of the clock;
  popsicle answers a request given the requests issued before it.  The two storage
  classes (memory-credential-storage, cookie-credential-storage) and \<open>APIURL\<close> are not
  among the sources, so the storage that \<open>setupAPIAccess\<close> constructs, its three
  mutators and the URL builder are parameters; \<open>setAccessToken\<close> is given the instant of
  the call, from which a storage computes the expiry.
\<close>

record host =
  now :: "nat \<Rightarrow> int"
  popsicle :: "(RequestOptions \<times> Middleware list) list \<Rightarrow> RequestOptions \<Rightarrow> Middleware list
                 \<Rightarrow> string + Response"
  API_REFRESH :: "string option \<Rightarrow> string"
  newCredentialStorage :: CredentialStorage
  setAccessToken :: "string option \<Rightarrow> int option \<Rightarrow> int \<Rightarrow> CredentialStorage \<Rightarrow> CredentialStorage"
  setRefreshToken :: "string option \<Rightarrow> CredentialStorage \<Rightarrow> CredentialStorage"
  logout :: "CredentialStorage \<Rightarrow> CredentialStorage"

text \<open>The trace: the requests issued, the number of clock readings, the console.\<close>

record net =
  sent :: "(RequestOptions \<times> Middleware list) list"
  dates :: nat
  console :: "string list"

definition newDateNow :: "host \<Rightarrow> net \<Rightarrow> int \<times> net" where
  "newDateNow h w = (now h (dates w), w\<lparr>dates := Suc (dates w)\<rparr>)"

definition console_log :: "string \<Rightarrow> net \<Rightarrow> net" where
  "console_log line w = w\<lparr>console := console w @ [line]\<rparr>"

definition send :: "host \<Rightarrow> RequestOptions \<Rightarrow> Middleware list \<Rightarrow> net \<Rightarrow> (error + Response) \<times> net" where
  "send h options plugins w =
     (case popsicle h (sent w) options plugins of
        Inl m \<Rightarrow> (Inl (Remote m), w\<lparr>sent := sent w @ [(options, plugins)]\<rparr>)
      | Inr r \<Rightarrow> (Inr r, w\<lparr>sent := sent w @ [(options, plugins)]\<rparr>))"


subsection \<open>The class\<close>

text \<open>The static state: \<open>_credentials\<close>, \<open>undefined\<close> until set up, and \<open>APIURL.BASE\<close>.\<close>

record CocoonAPI =
  credentials :: "CredentialStorage option"
  BASE :: string

definition checkAPIAccess :: "CocoonAPI \<Rightarrow> bool" where
  "checkAPIAccess api =
     (case credentials api of
        Some c \<Rightarrow> (case accessToken c of Some t \<Rightarrow> t \<noteq> [] | None \<Rightarrow> False)
      | None \<Rightarrow> False)"

definition setupAPIAccess ::
  "host \<Rightarrow> string option \<Rightarrow> string option \<Rightarrow> int option \<Rightarrow> string option \<Rightarrow> CocoonAPI \<Rightarrow> net
     \<Rightarrow> CocoonAPI \<times> net" where
  "setupAPIAccess h accessToken' refreshToken' expiration apiURL api w =
     (let api1 = (case apiURL of
                    Some u \<Rightarrow> if u \<noteq> [] then api\<lparr>BASE := u\<rparr> else api
                  | None \<Rightarrow> api)
      in case newDateNow h w of
           (t, w1) \<Rightarrow>
             (api1\<lparr>credentials :=
                     Some (setRefreshToken h refreshToken'
                             (setAccessToken h accessToken' expiration t (newCredentialStorage h)))\<rparr>,
              w1))"

definition refreshAPIAccess :: "host \<Rightarrow> CocoonAPI \<Rightarrow> net \<Rightarrow> (error + unit) \<times> CocoonAPI \<times> net" where
  "refreshAPIAccess h api w =
     (let w1 = console_log ''Refreshing access credentials...'' w in
      case credentials api of
        None \<Rightarrow> (Inl TypeError, api, w1)
      | Some c \<Rightarrow>
          (case send h \<lparr>http_method = ''GET'', url = API_REFRESH h (refreshToken c),
                        headers = None, body = None\<rparr> [Parse ''json''] w1 of
             (Inl e, w2) \<Rightarrow> (Inl e, api, w2)
           | (Inr result, w2) \<Rightarrow>
               (case setupAPIAccess h (access_token result) (refresh_token result)
                       (expires_in result) None api w2 of
                  (api3, w3) \<Rightarrow> (Inr (), api3, console_log ''Access credentials refreshed.'' w3))))"

definition closeAPIAccess :: "host \<Rightarrow> CocoonAPI \<Rightarrow> (error + unit) \<times> CocoonAPI" where
  "closeAPIAccess h api =
     (case credentials api of
        None \<Rightarrow> (Inl TypeError, api)
      | Some c \<Rightarrow> (Inr (), api\<lparr>credentials := Some (logout h c)\<rparr>))"

text \<open>
  \<open>"Bearer " + this.credentials.getAccessToken()\<close>: the concatenation turns \<open>undefined\<close>
  into the text \<open>undefined\<close>.
\<close>

definition bearer :: "string option \<Rightarrow> string" where
  "bearer token = ''Bearer '' @ (case token of Some t \<Rightarrow> t | None \<Rightarrow> ''undefined'')"

text \<open>
  \<open>a > b\<close> on two dates compares the time values; with \<open>undefined\<close> on the left it is
  false.
\<close>

definition date_gt :: "int option \<Rightarrow> int \<Rightarrow> bool" where
  "date_gt a b = (case a of Some x \<Rightarrow> x > b | None \<Rightarrow> False)"

text \<open>
  \<open>options.headers.Authorization = ...\<close>, after \<open>options.headers\<close> has been set to an
  empty object where it was missing.
\<close>

definition authorize :: "string option \<Rightarrow> RequestOptions \<Rightarrow> RequestOptions" where
  "authorize token options =
     options\<lparr>headers :=
       Some (AList.update ''Authorization'' (bearer token)
               (case headers options of None \<Rightarrow> [] | Some hs \<Rightarrow> hs))\<rparr>"

text \<open>
  \<open>request\<close>.  The options and the plugin list are the caller's objects; what the method
  makes of them is what it hands to popsicle, recorded in \<open>sent\<close>.  After a refresh the
  token is read from the storage that the refresh installed.
\<close>

definition request ::
  "host \<Rightarrow> RequestOptions \<Rightarrow> Middleware list \<Rightarrow> bool \<Rightarrow> CocoonAPI \<Rightarrow> net
     \<Rightarrow> (error + Response) \<times> CocoonAPI \<times> net" where
  "request h options plugins addCredentials api w =
     (if addCredentials then
        (case credentials api of
           Some c \<Rightarrow>
             (case newDateNow h w of
                (t, w1) \<Rightarrow>
                  (case (if date_gt (expireDate c) t
                         then refreshAPIAccess h api (console_log ''Access credentials expired.'' w1)
                         else (Inr (), api, w1)) of
                     (Inl e, api2, w2) \<Rightarrow> (Inl e, api2, w2)
                   | (Inr u, api2, w2) \<Rightarrow>
                       (case credentials api2 of
                          None \<Rightarrow> (Inl TypeError, api2, w2)
                        | Some c2 \<Rightarrow>
                            (case send h (authorize (accessToken c2) options)
                                    (plugins @ [Status_plugin]) w2 of
                               (r, w3) \<Rightarrow> (r, api2, w3)))))
         | None \<Rightarrow> (Inl Unauthenticated, api, w))
      else
        (case send h options (plugins @ [Status_plugin]) w of
           (r, w') \<Rightarrow> (r, api, w')))"


section \<open>Concrete collaborators\<close>

text \<open>
  A remote that answers every project call with the same payload, whose compilations
  are waiting when the payload's title is \<open>busy\<close>, and that rejects the signing-key
  calls when \<open>reject\<close> is set; a clock that advances 100 ms from one reading to the
  next; documents that are their own text.
\<close>

definition sampleData :: "string \<Rightarrow> string list \<Rightarrow> IProjectData" where
  "sampleData title platforms =
     \<lparr> d_id = ''p1'', d_title = title, d_package = ''com.example.game'', d_version = ''1.0.0'',
       d_source = ''https://example.com/source.zip'', d_origin = [(''url'', ''example.com'')],
       d_date_created = 1000, d_date_updated = 2000, d_date_compiled = 3000,
       d_error = [], d_platforms = platforms, d_keys = [(''android'', ''key-7'')] \<rparr>"

definition sampleEnv :: "string \<Rightarrow> string list \<Rightarrow> bool \<Rightarrow> string env" where
  "sampleEnv title platforms reject =
     \<lparr> clock = (\<lambda>k. 100 * int k),
       projectReply = (\<lambda>history c. Inr (sampleData title platforms)),
       textReply = (\<lambda>history c. Inr ''<widget/>''),
       voidReply = (\<lambda>history c. if reject then Some ''503'' else None),
       newCompilation = (\<lambda>d platform.
         \<lparr> c_platform = platform,
           status = (if d_title d = ''busy'' then Waiting else Completed),
           c_data = [] \<rparr>),
       newSigningKey = (\<lambda>k platform. \<lparr> k_id = k, k_platform = platform, k_data = [] \<rparr>),
       newXMLSugar = (\<lambda>text. text),
       xml = (\<lambda>doc. doc) \<rparr>"

definition sampleProject :: "string Project" where
  "sampleProject =
     newProject (sampleEnv ''busy'' [''android''] False) (sampleData ''busy'' [''android''])"

definition world0 :: world where
  "world0 = \<lparr> calls = [], reads = 0, ticks = 0, sleeps = [] \<rparr>"

text \<open>
  Modelled from the spec: the in-memory credential storage (memory-credential-storage is
  not among the sources).  The spec has \<open>setupAccess\<close> set the two tokens and a computed
  expiry from a validity in seconds, and \<open>logout\<close> clear the storage.
\<close>

definition memoryHost :: "int \<Rightarrow> host" where
  "memoryHost t =
     \<lparr> now = (\<lambda>k. t),
       popsicle = (\<lambda>history options plugins.
         Inr \<lparr> res_status = 200, access_token = Some ''fresh'', refresh_token = Some ''renew2'',
               expires_in = Some 3600, res_text = [] \<rparr>),
       API_REFRESH = (\<lambda>token. ''/oauth/refresh/'' @ (case token of Some r \<Rightarrow> r | None \<Rightarrow> ''undefined'')),
       newCredentialStorage = \<lparr> accessToken = None, refreshToken = None, expireDate = None \<rparr>,
       setAccessToken = (\<lambda>token expiration instant s.
         s\<lparr> accessToken := token,
            expireDate := (case expiration of Some e \<Rightarrow> Some (instant + 1000 * e) | None \<Rightarrow> None) \<rparr>),
       setRefreshToken = (\<lambda>token s. s\<lparr> refreshToken := token \<rparr>),
       logout = (\<lambda>s. \<lparr> accessToken = None, refreshToken = None, expireDate = None \<rparr>) \<rparr>"

definition session :: "int \<Rightarrow> CocoonAPI" where
  "session expiry =
     \<lparr> credentials = Some \<lparr> accessToken = Some ''stale'', refreshToken = Some ''renew1'',
                            expireDate = Some expiry \<rparr>,
       BASE = ''https://api.example.com'' \<rparr>"

definition net0 :: net where
  "net0 = \<lparr> sent = [], dates = 0, console = [] \<rparr>"

definition getTemplates :: RequestOptions where
  "getTemplates = \<lparr> http_method = ''GET'', url = ''/templates'', headers = None, body = None \<rparr>"


section \<open>Properties of the project\<close>

subsection \<open>The compilation snapshot\<close>

lemma anyOngoing_iff:
  "anyOngoing cs = (\<exists>(platform, c) \<in> set cs. status c = Compiling \<or> status c = Waiting)"
  by (induction cs rule: anyOngoing.induct) auto

text \<open>
  Claim C9.  \<open>isCompiling()\<close> is true exactly when some entry of the compilations map has
  the status Compiling or Waiting, and false for the empty map.  The result is a function of
  the cached compilations alone: the method takes neither the remote nor the trace.
\<close>

theorem isCompiling_iff_ongoing:
  "isCompiling (p\<lparr>p_compilations := cs\<rparr>) =
     (\<exists>(platform, c) \<in> set cs. status c = Compiling \<or> status c = Waiting)
   \<and> \<not> isCompiling (p\<lparr>p_compilations := []\<rparr>)"
  by (simp add: isCompiling_def anyOngoing_iff)

subsection \<open>Replacing the snapshot\<close>

lemma map_of_foldl_update:
  "map_of (foldl (\<lambda>m k. AList.update k (f k) m) acc ks) =
     (\<lambda>k. if k \<in> set ks then Some (f k) else map_of acc k)"
  by (induction ks arbitrary: acc) (auto simp: update_conv' fun_eq_iff)

lemma map_of_initCompilations:
  "map_of (initCompilations env d) =
     (\<lambda>platform. if platform \<in> set (d_platforms d) then Some (newCompilation env d platform) else None)"
  by (auto simp: initCompilations_def map_of_foldl_update fun_eq_iff)

lemma map_of_foldl_update_opt:
  "map_of (foldl (\<lambda>m k. case g k of Some v \<Rightarrow> AList.update k (f v k) m | None \<Rightarrow> m) acc ks) =
     (\<lambda>k. if k \<in> set ks then (case g k of Some v \<Rightarrow> Some (f v k) | None \<Rightarrow> map_of acc k)
           else map_of acc k)"
  by (induction ks arbitrary: acc) (auto simp: update_conv' fun_eq_iff split: option.splits)

lemma map_of_initKeys:
  "map_of (initKeys env d) =
     (\<lambda>platform. case map_of (d_keys d) platform of
                    Some k \<Rightarrow> Some (Some (newSigningKey env k platform))
                  | None \<Rightarrow> None)"
proof
  fix platform
  show "map_of (initKeys env d) platform =
          (case map_of (d_keys d) platform of
             Some k \<Rightarrow> Some (Some (newSigningKey env k platform)) | None \<Rightarrow> None)"
  proof (cases "map_of (d_keys d) platform")
    case None
    then have "platform \<notin> set (map fst (d_keys d))"
      by (simp add: map_of_eq_None_iff)
    with None show ?thesis
      by (simp add: initKeys_def map_of_foldl_update_opt)
  next
    case (Some k)
    then have "platform \<in> set (map fst (d_keys d))"
      by (metis map_of_eq_None_iff option.distinct(1) set_map)
    with Some show ?thesis
      by (simp add: initKeys_def map_of_foldl_update_opt)
  qed
qed

lemma initFrom_Inr:
  assumes "initFrom env c p w = (Inr u, p', w')"
  shows "\<exists>d. projectReply env (calls w) c = Inr d \<and> p' = init env d p
              \<and> w' = w\<lparr>calls := calls w @ [c]\<rparr>"
  using assms by (auto simp: initFrom_def awaitProject_def split: sum.splits)

lemma initFrom_Inl:
  assumes "initFrom env c p w = (Inl e, p', w')"
  shows "\<exists>m. e = Remote m \<and> p' = p \<and> w' = w\<lparr>calls := calls w @ [c]\<rparr>"
  using assms by (auto simp: initFrom_def awaitProject_def split: sum.splits)

lemma init_independent: "init env d p = init env d q"
  by (simp add: init_def)

lemma sampleProject_eq:
  "sampleProject =
     \<lparr> p_id = ''p1'', p_name = ''busy'', p_bundleID = ''com.example.game'', p_version = ''1.0.0'',
       p_origin = [(''url'', ''example.com'')],
       p_dateCompiled = Some 3000, p_dateCreated = Some 1000, p_dateUpdated = Some 2000,
       p_compilations = [(''android'', \<lparr> c_platform = ''android'', status = Waiting, c_data = [] \<rparr>)],
       p_errors = [],
       p_keys = [(''android'', Some \<lparr> k_id = ''key-7'', k_platform = ''android'', k_data = [] \<rparr>)],
       p_sourceURL = ''https://example.com/source.zip'', configXML = None \<rparr>"
  by (simp add: sampleProject_def newProject_def init_def sampleEnv_def sampleData_def
      initCompilations_def initKeys_def newDate_def)

text \<open>
  Claim C4.  When \<open>refresh()\<close> resolves, the remote has answered with a payload \<open>d\<close>, and
  the identifier, name, bundle identifier, version, source URL, origin, the three dates, the
  errors, the compilations and the keys of the project are those derived from \<open>d\<close>.  The
  resulting object is the one \<open>init\<close> builds from \<open>d\<close> on any object whatever, so no field
  keeps a value from before the call.
\<close>

theorem refresh_replaces_snapshot:
  assumes "refresh env p w = (Inr u, p', w')"
  shows "\<exists>d. projectReply env (calls w) (GetUnprocessed (p_id p)) = Inr d
           \<and> p_id p' = d_id d \<and> p_name p' = d_title d \<and> p_bundleID p' = d_package d
           \<and> p_version p' = d_version d \<and> p_sourceURL p' = d_source d
           \<and> p_origin p' = d_origin d
           \<and> p_dateCreated p' = newDate (d_date_created d)
           \<and> p_dateUpdated p' = newDate (d_date_updated d)
           \<and> p_dateCompiled p' = newDate (d_date_compiled d)
           \<and> p_errors p' = d_error d
           \<and> map_of (p_compilations p') =
               (\<lambda>platform. if platform \<in> set (d_platforms d)
                            then Some (newCompilation env d platform) else None)
           \<and> map_of (p_keys p') =
               (\<lambda>platform. case map_of (d_keys d) platform of
                              Some k \<Rightarrow> Some (Some (newSigningKey env k platform))
                            | None \<Rightarrow> None)
           \<and> (\<forall>q. p' = init env d q)"
proof -
  from assms obtain d where
    d: "projectReply env (calls w) (GetUnprocessed (p_id p)) = Inr d" and
    p': "p' = init env d p"
    unfolding refresh_def by (blast dest: initFrom_Inr)
  have indep: "\<forall>q. p' = init env d q"
    using p' init_independent [of env d p] by simp
  have fields: "p_id p' = d_id d \<and> p_name p' = d_title d \<and> p_bundleID p' = d_package d
           \<and> p_version p' = d_version d \<and> p_sourceURL p' = d_source d
           \<and> p_origin p' = d_origin d
           \<and> p_dateCreated p' = newDate (d_date_created d)
           \<and> p_dateUpdated p' = newDate (d_date_updated d)
           \<and> p_dateCompiled p' = newDate (d_date_compiled d)
           \<and> p_errors p' = d_error d"
    by (simp add: p' init_def)
  have comps: "map_of (p_compilations p') =
               (\<lambda>platform. if platform \<in> set (d_platforms d)
                            then Some (newCompilation env d platform) else None)"
    by (simp add: p' init_def map_of_initCompilations)
  have keys: "map_of (p_keys p') =
               (\<lambda>platform. case map_of (d_keys d) platform of
                              Some k \<Rightarrow> Some (Some (newSigningKey env k platform))
                            | None \<Rightarrow> None)"
    by (simp add: p' init_def map_of_initKeys)
  from d fields comps keys indep show ?thesis by blast
qed

lemma refresh_sample:
  "refresh (sampleEnv ''idle'' [''ios''] False) sampleProject world0
   = (Inr (), newProject (sampleEnv ''idle'' [''ios''] False) (sampleData ''idle'' [''ios'']),
      world0\<lparr>calls := [GetUnprocessed ''p1'']\<rparr>)"
  by (simp add: refresh_def initFrom_def awaitProject_def sampleProject_eq newProject_def init_def
      sampleEnv_def sampleData_def world0_def initCompilations_def initKeys_def newDate_def)

theorem refresh_replaces_snapshot_witness:
  "refresh (sampleEnv ''idle'' [''ios''] False) sampleProject world0
     = (Inr (), newProject (sampleEnv ''idle'' [''ios''] False) (sampleData ''idle'' [''ios'']),
        world0\<lparr>calls := [GetUnprocessed ''p1'']\<rparr>)
   \<and> p_name sampleProject = ''busy''
   \<and> p_name (newProject (sampleEnv ''idle'' [''ios''] False) (sampleData ''idle'' [''ios'']))
       = ''idle''
   \<and> map_of (p_compilations sampleProject) ''android''
       = Some \<lparr> c_platform = ''android'', status = Waiting, c_data = [] \<rparr>
   \<and> map_of (p_compilations
        (newProject (sampleEnv ''idle'' [''ios''] False) (sampleData ''idle'' [''ios''])))
        ''android'' = None
   \<and> map_of (p_compilations
        (newProject (sampleEnv ''idle'' [''ios''] False) (sampleData ''idle'' [''ios''])))
        ''ios'' = Some \<lparr> c_platform = ''ios'', status = Completed, c_data = [] \<rparr>"
  using refresh_replaces_snapshot [OF refresh_sample] refresh_sample
  by (simp add: sampleProject_eq sampleEnv_def sampleData_def)

subsection \<open>Signing keys\<close>

lemma keyAt_update:
  "keyAt (p\<lparr>p_keys := AList.update platform slot (p_keys p)\<rparr>) other =
     (if other = platform then slot else keyAt p other)"
  by (simp add: keyAt_def update_conv')

text \<open>
  Claim C5.  For a platform without a signing key, \<open>removeSigningKey\<close> fails with the
  error naming the platform and the project, and leaves the object and the trace of remote
  calls as they were.  For a platform with a key it makes the remote removal; when that
  succeeds the slot of the platform reads as empty and every other slot and field is
  unchanged, and when it is rejected the rejection is passed on and the object is unchanged.
\<close>

theorem removeSigningKey_cases:
  "(keyAt p platform = None \<longrightarrow>
      removeSigningKey env platform p w = (Inl (NoSigningKey platform (p_id p)), p, w)
      \<and> message (NoSigningKey platform (p_id p)) =
          ''There is no signing key for the '' @ platform @ '' platform in the project '' @ p_id p)
   \<and> (\<forall>key. keyAt p platform = Some key \<longrightarrow>
        (case voidReply env (calls w) (RemoveSigningKey (p_id p) (k_id key)) of
           None \<Rightarrow>
             (\<exists>p'. removeSigningKey env platform p w =
                      (Inr (), p', w\<lparr>calls := calls w @ [RemoveSigningKey (p_id p) (k_id key)]\<rparr>)
                  \<and> keyAt p' platform = None
                  \<and> (\<forall>other. other \<noteq> platform \<longrightarrow> keyAt p' other = keyAt p other)
                  \<and> p' = p\<lparr>p_keys := p_keys p'\<rparr>)
         | Some m \<Rightarrow>
             removeSigningKey env platform p w =
               (Inl (Remote m), p, w\<lparr>calls := calls w @ [RemoveSigningKey (p_id p) (k_id key)]\<rparr>)))"
  by (auto simp: removeSigningKey_def awaitVoid_def keyAt_update split: option.splits)

theorem removeSigningKey_cases_witness:
  "keyAt sampleProject ''ios'' = None
   \<and> removeSigningKey (sampleEnv ''busy'' [''android''] False) ''ios'' sampleProject world0
       = (Inl (NoSigningKey ''ios'' ''p1''), sampleProject, world0)
   \<and> keyAt sampleProject ''android''
       = Some \<lparr> k_id = ''key-7'', k_platform = ''android'', k_data = [] \<rparr>
   \<and> removeSigningKey (sampleEnv ''busy'' [''android''] False) ''android'' sampleProject world0
       = (Inr (), sampleProject\<lparr>p_keys := [(''android'', None)]\<rparr>,
          world0\<lparr>calls := [RemoveSigningKey ''p1'' ''key-7'']\<rparr>)
   \<and> removeSigningKey (sampleEnv ''busy'' [''android''] True) ''android'' sampleProject world0
       = (Inl (Remote ''503''), sampleProject, world0\<lparr>calls := [RemoveSigningKey ''p1'' ''key-7'']\<rparr>)"
  using removeSigningKey_cases [where p = sampleProject and platform = "''ios''"
          and env = "sampleEnv ''busy'' [''android''] False" and w = world0]
        removeSigningKey_cases [where p = sampleProject and platform = "''android''"
          and env = "sampleEnv ''busy'' [''android''] False" and w = world0]
        removeSigningKey_cases [where p = sampleProject and platform = "''android''"
          and env = "sampleEnv ''busy'' [''android''] True" and w = world0]
  by (simp add: removeSigningKey_def awaitVoid_def sampleProject_eq keyAt_def sampleEnv_def
      world0_def)

text \<open>
  Claim C6.  \<open>assignSigningKey\<close> makes the remote call first.  When it succeeds, the slot
  of the key's platform then reads as the given key, whatever it held before, and every other
  slot and field is unchanged; when it is rejected, the rejection is passed on and the object
  is unchanged.
\<close>

theorem assignSigningKey_cases:
  "(case voidReply env (calls w) (AssignSigningKey (p_id p) (k_id key)) of
      None \<Rightarrow>
        (\<exists>p'. assignSigningKey env key p w =
                 (Inr (), p', w\<lparr>calls := calls w @ [AssignSigningKey (p_id p) (k_id key)]\<rparr>)
             \<and> keyAt p' (k_platform key) = Some key
             \<and> (\<forall>other. other \<noteq> k_platform key \<longrightarrow> keyAt p' other = keyAt p other)
             \<and> p' = p\<lparr>p_keys := p_keys p'\<rparr>)
    | Some m \<Rightarrow>
        assignSigningKey env key p w =
          (Inl (Remote m), p, w\<lparr>calls := calls w @ [AssignSigningKey (p_id p) (k_id key)]\<rparr>))"
  by (auto simp: assignSigningKey_def awaitVoid_def keyAt_update split: option.splits)

theorem assignSigningKey_cases_witness:
  "assignSigningKey (sampleEnv ''busy'' [''android''] False)
       \<lparr> k_id = ''key-9'', k_platform = ''android'', k_data = [] \<rparr> sampleProject world0
     = (Inr (),
        sampleProject\<lparr>p_keys := [(''android'', Some \<lparr> k_id = ''key-9'', k_platform = ''android'', k_data = [] \<rparr>)]\<rparr>,
        world0\<lparr>calls := [AssignSigningKey ''p1'' ''key-9'']\<rparr>)
   \<and> keyAt (sampleProject\<lparr>p_keys := [(''android'', Some \<lparr> k_id = ''key-9'', k_platform = ''android'', k_data = [] \<rparr>)]\<rparr>)
         ''android'' = Some \<lparr> k_id = ''key-9'', k_platform = ''android'', k_data = [] \<rparr>
   \<and> assignSigningKey (sampleEnv ''busy'' [''android''] True)
       \<lparr> k_id = ''key-9'', k_platform = ''android'', k_data = [] \<rparr> sampleProject world0
     = (Inl (Remote ''503''), sampleProject, world0\<lparr>calls := [AssignSigningKey ''p1'' ''key-9'']\<rparr>)"
  using assignSigningKey_cases [where env = "sampleEnv ''busy'' [''android''] False" and w = world0
          and p = sampleProject and key = "\<lparr> k_id = ''key-9'', k_platform = ''android'', k_data = [] \<rparr>"]
        assignSigningKey_cases [where env = "sampleEnv ''busy'' [''android''] True" and w = world0
          and p = sampleProject and key = "\<lparr> k_id = ''key-9'', k_platform = ''android'', k_data = [] \<rparr>"]
  by (simp add: assignSigningKey_def awaitVoid_def sampleProject_eq keyAt_def sampleEnv_def
      world0_def)

subsection \<open>The cached configuration document\<close>

lemma updateConfigXml_Inr:
  assumes "updateConfigXml env text p w = (Inr u, p', w')"
  shows "\<exists>d. projectReply env (calls w) (UpdateConfigXmlUnprocessed (p_id p) text) = Inr d
           \<and> p' = (init env d p)\<lparr>configXML := Some (newXMLSugar env text)\<rparr>
           \<and> w' = w\<lparr>calls := calls w @ [UpdateConfigXmlUnprocessed (p_id p) text]\<rparr>"
proof (cases "initFrom env (UpdateConfigXmlUnprocessed (p_id p) text) p w")
  case (fields r q v)
  with assms obtain u' where r: "r = Inr u'"
    by (cases r) (auto simp: updateConfigXml_def)
  with fields assms have "p' = q\<lparr>configXML := Some (newXMLSugar env text)\<rparr>" and "w' = v"
    by (auto simp: updateConfigXml_def)
  with fields r initFrom_Inr [of env "UpdateConfigXmlUnprocessed (p_id p) text" p w u' q v]
  show ?thesis by auto
qed

text \<open>
  Claim C7.  When \<open>updateConfigXml(text)\<close> resolves, the cached document is the one built
  from \<open>text\<close>; the next \<open>getConfigXML()\<close> returns it without a remote call, so that its
  serialization is that of the document built from \<open>text\<close>; and the outcome is the same
  whatever document was cached before the call.
\<close>

theorem updateConfigXml_caches_written_text:
  assumes "updateConfigXml env text p w = (Inr u, p', w')"
  shows "configXML p' = Some (newXMLSugar env text)
         \<and> getConfigXML env p' w' = (Inr (newXMLSugar env text), p', w')
         \<and> (\<exists>doc. fst (getConfigXML env p' w') = Inr doc
                \<and> xml env doc = xml env (newXMLSugar env text))
         \<and> (\<forall>cached. updateConfigXml env text (p\<lparr>configXML := cached\<rparr>) w = (Inr u, p', w'))"
proof -
  from updateConfigXml_Inr [OF assms] obtain d where
    d: "projectReply env (calls w) (UpdateConfigXmlUnprocessed (p_id p) text) = Inr d" and
    p': "p' = (init env d p)\<lparr>configXML := Some (newXMLSugar env text)\<rparr>" and
    w': "w' = w\<lparr>calls := calls w @ [UpdateConfigXmlUnprocessed (p_id p) text]\<rparr>"
    by blast
  have cache: "configXML p' = Some (newXMLSugar env text)"
    by (simp add: p')
  then have get: "getConfigXML env p' w' = (Inr (newXMLSugar env text), p', w')"
    by (simp add: getConfigXML_def)
  have other: "updateConfigXml env text (p\<lparr>configXML := cached\<rparr>) w = (Inr u, p', w')" for cached
    using d by (simp add: updateConfigXml_def initFrom_def awaitProject_def p' w' init_def)
  from cache get other show ?thesis by simp
qed

lemma updateConfigXml_sample:
  "updateConfigXml (sampleEnv ''idle'' [''ios''] False) ''<widget id=1/>''
     (sampleProject\<lparr>configXML := Some ''<widget id=0/>''\<rparr>) world0
   = (Inr (),
      (newProject (sampleEnv ''idle'' [''ios''] False) (sampleData ''idle'' [''ios'']))
        \<lparr>configXML := Some ''<widget id=1/>''\<rparr>,
      world0\<lparr>calls := [UpdateConfigXmlUnprocessed ''p1'' ''<widget id=1/>'']\<rparr>)"
  by (simp add: updateConfigXml_def initFrom_def awaitProject_def sampleProject_eq newProject_def
      init_def sampleEnv_def sampleData_def world0_def initCompilations_def initKeys_def newDate_def)

theorem updateConfigXml_caches_written_text_witness:
  "updateConfigXml (sampleEnv ''idle'' [''ios''] False) ''<widget id=1/>''
     (sampleProject\<lparr>configXML := Some ''<widget id=0/>''\<rparr>) world0
   = (Inr (),
      (newProject (sampleEnv ''idle'' [''ios''] False) (sampleData ''idle'' [''ios'']))
        \<lparr>configXML := Some ''<widget id=1/>''\<rparr>,
      world0\<lparr>calls := [UpdateConfigXmlUnprocessed ''p1'' ''<widget id=1/>'']\<rparr>)
   \<and> getConfigXML (sampleEnv ''idle'' [''ios''] False)
       ((newProject (sampleEnv ''idle'' [''ios''] False) (sampleData ''idle'' [''ios'']))
          \<lparr>configXML := Some ''<widget id=1/>''\<rparr>)
       (world0\<lparr>calls := [UpdateConfigXmlUnprocessed ''p1'' ''<widget id=1/>'']\<rparr>)
     = (Inr ''<widget id=1/>'',
        (newProject (sampleEnv ''idle'' [''ios''] False) (sampleData ''idle'' [''ios'']))
          \<lparr>configXML := Some ''<widget id=1/>''\<rparr>,
        world0\<lparr>calls := [UpdateConfigXmlUnprocessed ''p1'' ''<widget id=1/>'']\<rparr>)"
  using updateConfigXml_caches_written_text [OF updateConfigXml_sample] updateConfigXml_sample
  by (simp add: sampleEnv_def)

lemma initFrom_reply:
  "initFrom env c p w =
     (case projectReply env (calls w) c of
        Inr d \<Rightarrow> (Inr (), init env d p, w\<lparr>calls := calls w @ [c]\<rparr>)
      | Inl m \<Rightarrow> (Inl (Remote m), p, w\<lparr>calls := calls w @ [c]\<rparr>))"
  by (simp add: initFrom_def awaitProject_def split: sum.splits)

lemma getConfigXML_miss:
  assumes "configXML q = None"
  shows "getConfigXML env q v =
           (case textReply env (calls v) (GetConfigXml (p_id q)) of
              Inr t \<Rightarrow> (Inr (newXMLSugar env t), q\<lparr>configXML := Some (newXMLSugar env t)\<rparr>,
                        v\<lparr>calls := calls v @ [GetConfigXml (p_id q)]\<rparr>)
            | Inl m \<Rightarrow> (Inl (Remote m), q, v\<lparr>calls := calls v @ [GetConfigXml (p_id q)]\<rparr>))"
  using assms by (simp add: getConfigXML_def awaitText_def split: sum.splits)

text \<open>
  Claim C10.  \<open>init\<close> sets the cached document to \<open>null\<close>, and so does the constructor.
  Each of \<open>refresh\<close>, \<open>updateZip\<close>, \<open>updateURL\<close> and \<open>updateRepository\<close> makes its
  remote call and, when the remote answers with a payload \<open>d\<close>, resolves with the object
  that \<open>init\<close> builds from \<open>d\<close>, whose cache is therefore empty whatever was cached or
  edited before; when the remote rejects, the rejection is passed on and the object is
  untouched.  On an object that \<open>init\<close> has built, \<open>getConfigXML()\<close> asks the remote for
  the text and, when it gets it, returns and caches the document built from that text.
  \<open>updateConfigXml(text)\<close> runs \<open>init\<close> in the same way and then puts the document built
  from \<open>text\<close> into the cache, and on a filled cache \<open>getConfigXML()\<close> returns the cached
  document with no remote call.
\<close>

theorem init_resets_configXML:
  "configXML (init env d p) = None
   \<and> configXML (newProject env d) = None
   \<and> refresh env p w =
       (case projectReply env (calls w) (GetUnprocessed (p_id p)) of
          Inr d' \<Rightarrow> (Inr (), init env d' p, w\<lparr>calls := calls w @ [GetUnprocessed (p_id p)]\<rparr>)
        | Inl m \<Rightarrow> (Inl (Remote m), p, w\<lparr>calls := calls w @ [GetUnprocessed (p_id p)]\<rparr>))
   \<and> updateZip env archive p w =
       (case projectReply env (calls w) (UpdateZipUnprocessed (p_id p) archive) of
          Inr d' \<Rightarrow> (Inr (), init env d' p,
                     w\<lparr>calls := calls w @ [UpdateZipUnprocessed (p_id p) archive]\<rparr>)
        | Inl m \<Rightarrow> (Inl (Remote m), p,
                    w\<lparr>calls := calls w @ [UpdateZipUnprocessed (p_id p) archive]\<rparr>))
   \<and> updateURL env link p w =
       (case projectReply env (calls w) (UpdateURLUnprocessed (p_id p) link) of
          Inr d' \<Rightarrow> (Inr (), init env d' p,
                     w\<lparr>calls := calls w @ [UpdateURLUnprocessed (p_id p) link]\<rparr>)
        | Inl m \<Rightarrow> (Inl (Remote m), p,
                    w\<lparr>calls := calls w @ [UpdateURLUnprocessed (p_id p) link]\<rparr>))
   \<and> updateRepository env link branch p w =
       (case projectReply env (calls w) (UpdateRepositoryUnprocessed (p_id p) link branch) of
          Inr d' \<Rightarrow> (Inr (), init env d' p,
                     w\<lparr>calls := calls w @ [UpdateRepositoryUnprocessed (p_id p) link branch]\<rparr>)
        | Inl m \<Rightarrow> (Inl (Remote m), p,
                    w\<lparr>calls := calls w @ [UpdateRepositoryUnprocessed (p_id p) link branch]\<rparr>))
   \<and> updateConfigXml env content p w =
       (case projectReply env (calls w) (UpdateConfigXmlUnprocessed (p_id p) content) of
          Inr d' \<Rightarrow> (Inr (), (init env d' p)\<lparr>configXML := Some (newXMLSugar env content)\<rparr>,
                     w\<lparr>calls := calls w @ [UpdateConfigXmlUnprocessed (p_id p) content]\<rparr>)
        | Inl m \<Rightarrow> (Inl (Remote m), p,
                    w\<lparr>calls := calls w @ [UpdateConfigXmlUnprocessed (p_id p) content]\<rparr>))
   \<and> getConfigXML env (init env d p) v =
       (case textReply env (calls v) (GetConfigXml (d_id d)) of
          Inr t \<Rightarrow> (Inr (newXMLSugar env t),
                    (init env d p)\<lparr>configXML := Some (newXMLSugar env t)\<rparr>,
                    v\<lparr>calls := calls v @ [GetConfigXml (d_id d)]\<rparr>)
        | Inl m \<Rightarrow> (Inl (Remote m), init env d p, v\<lparr>calls := calls v @ [GetConfigXml (d_id d)]\<rparr>))
   \<and> getConfigXML env ((init env d p)\<lparr>configXML := Some doc\<rparr>) v =
       (Inr doc, (init env d p)\<lparr>configXML := Some doc\<rparr>, v)"
proof -
  have reset: "configXML (init env d p) = None"
    by (simp add: init_def)
  have ident: "p_id (init env d p) = d_id d"
    by (simp add: init_def)
  have fresh: "configXML (newProject env d) = None"
    by (simp add: newProject_def init_def)
  have r: "refresh env p w =
       (case projectReply env (calls w) (GetUnprocessed (p_id p)) of
          Inr d' \<Rightarrow> (Inr (), init env d' p, w\<lparr>calls := calls w @ [GetUnprocessed (p_id p)]\<rparr>)
        | Inl m \<Rightarrow> (Inl (Remote m), p, w\<lparr>calls := calls w @ [GetUnprocessed (p_id p)]\<rparr>))"
    by (simp add: refresh_def initFrom_reply)
  have z: "updateZip env archive p w =
       (case projectReply env (calls w) (UpdateZipUnprocessed (p_id p) archive) of
          Inr d' \<Rightarrow> (Inr (), init env d' p,
                     w\<lparr>calls := calls w @ [UpdateZipUnprocessed (p_id p) archive]\<rparr>)
        | Inl m \<Rightarrow> (Inl (Remote m), p,
                    w\<lparr>calls := calls w @ [UpdateZipUnprocessed (p_id p) archive]\<rparr>))"
    by (simp add: updateZip_def initFrom_reply)
  have u: "updateURL env link p w =
       (case projectReply env (calls w) (UpdateURLUnprocessed (p_id p) link) of
          Inr d' \<Rightarrow> (Inr (), init env d' p,
                     w\<lparr>calls := calls w @ [UpdateURLUnprocessed (p_id p) link]\<rparr>)
        | Inl m \<Rightarrow> (Inl (Remote m), p,
                    w\<lparr>calls := calls w @ [UpdateURLUnprocessed (p_id p) link]\<rparr>))"
    by (simp add: updateURL_def initFrom_reply)
  have g: "updateRepository env link branch p w =
       (case projectReply env (calls w) (UpdateRepositoryUnprocessed (p_id p) link branch) of
          Inr d' \<Rightarrow> (Inr (), init env d' p,
                     w\<lparr>calls := calls w @ [UpdateRepositoryUnprocessed (p_id p) link branch]\<rparr>)
        | Inl m \<Rightarrow> (Inl (Remote m), p,
                    w\<lparr>calls := calls w @ [UpdateRepositoryUnprocessed (p_id p) link branch]\<rparr>))"
    by (simp add: updateRepository_def initFrom_reply)
  have x: "updateConfigXml env content p w =
       (case projectReply env (calls w) (UpdateConfigXmlUnprocessed (p_id p) content) of
          Inr d' \<Rightarrow> (Inr (), (init env d' p)\<lparr>configXML := Some (newXMLSugar env content)\<rparr>,
                     w\<lparr>calls := calls w @ [UpdateConfigXmlUnprocessed (p_id p) content]\<rparr>)
        | Inl m \<Rightarrow> (Inl (Remote m), p,
                    w\<lparr>calls := calls w @ [UpdateConfigXmlUnprocessed (p_id p) content]\<rparr>))"
    by (simp add: updateConfigXml_def initFrom_reply split: sum.splits)
  have miss: "getConfigXML env (init env d p) v =
       (case textReply env (calls v) (GetConfigXml (d_id d)) of
          Inr t \<Rightarrow> (Inr (newXMLSugar env t),
                    (init env d p)\<lparr>configXML := Some (newXMLSugar env t)\<rparr>,
                    v\<lparr>calls := calls v @ [GetConfigXml (d_id d)]\<rparr>)
        | Inl m \<Rightarrow> (Inl (Remote m), init env d p, v\<lparr>calls := calls v @ [GetConfigXml (d_id d)]\<rparr>))"
    using getConfigXML_miss [OF reset, of env v] unfolding ident .
  have hit: "getConfigXML env ((init env d p)\<lparr>configXML := Some doc\<rparr>) v =
       (Inr doc, (init env d p)\<lparr>configXML := Some doc\<rparr>, v)"
    by (simp add: getConfigXML_def)
  from reset fresh r z u g x miss hit show ?thesis
    by (intro conjI)
qed

text \<open>
  The five operations and the constructor on a project whose cache holds a locally edited
  document, each followed by \<open>getConfigXML()\<close>.
\<close>

theorem init_resets_configXML_witness:
  "refresh (sampleEnv ''idle'' [''ios''] False)
       (sampleProject\<lparr>configXML := Some ''<widget id=0/>''\<rparr>) world0
     = (Inr (), newProject (sampleEnv ''idle'' [''ios''] False) (sampleData ''idle'' [''ios'']),
        world0\<lparr>calls := [GetUnprocessed ''p1'']\<rparr>)
   \<and> updateZip (sampleEnv ''idle'' [''ios''] False) ''game.zip''
       (sampleProject\<lparr>configXML := Some ''<widget id=0/>''\<rparr>) world0
     = (Inr (), newProject (sampleEnv ''idle'' [''ios''] False) (sampleData ''idle'' [''ios'']),
        world0\<lparr>calls := [UpdateZipUnprocessed ''p1'' ''game.zip'']\<rparr>)
   \<and> updateURL (sampleEnv ''idle'' [''ios''] False) ''https://example.com/game.zip''
       (sampleProject\<lparr>configXML := Some ''<widget id=0/>''\<rparr>) world0
     = (Inr (), newProject (sampleEnv ''idle'' [''ios''] False) (sampleData ''idle'' [''ios'']),
        world0\<lparr>calls := [UpdateURLUnprocessed ''p1'' ''https://example.com/game.zip'']\<rparr>)
   \<and> updateRepository (sampleEnv ''idle'' [''ios''] False) ''https://example.com/game.git''
       (Some ''main'') (sampleProject\<lparr>configXML := Some ''<widget id=0/>''\<rparr>) world0
     = (Inr (), newProject (sampleEnv ''idle'' [''ios''] False) (sampleData ''idle'' [''ios'']),
        world0\<lparr>calls := [UpdateRepositoryUnprocessed ''p1'' ''https://example.com/game.git''
                            (Some ''main'')]\<rparr>)
   \<and> updateConfigXml (sampleEnv ''idle'' [''ios''] False) ''<widget id=1/>''
       (sampleProject\<lparr>configXML := Some ''<widget id=0/>''\<rparr>) world0
     = (Inr (),
        (newProject (sampleEnv ''idle'' [''ios''] False) (sampleData ''idle'' [''ios'']))
          \<lparr>configXML := Some ''<widget id=1/>''\<rparr>,
        world0\<lparr>calls := [UpdateConfigXmlUnprocessed ''p1'' ''<widget id=1/>'']\<rparr>)
   \<and> configXML (newProject (sampleEnv ''idle'' [''ios''] False) (sampleData ''idle'' [''ios''])) = None
   \<and> getConfigXML (sampleEnv ''idle'' [''ios''] False)
       (newProject (sampleEnv ''idle'' [''ios''] False) (sampleData ''idle'' [''ios'']))
       (world0\<lparr>calls := [UpdateURLUnprocessed ''p1'' ''https://example.com/game.zip'']\<rparr>)
     = (Inr ''<widget/>'',
        (newProject (sampleEnv ''idle'' [''ios''] False) (sampleData ''idle'' [''ios'']))
          \<lparr>configXML := Some ''<widget/>''\<rparr>,
        world0\<lparr>calls := [UpdateURLUnprocessed ''p1'' ''https://example.com/game.zip'',
                            GetConfigXml ''p1'']\<rparr>)
   \<and> getConfigXML (sampleEnv ''idle'' [''ios''] False)
       ((newProject (sampleEnv ''idle'' [''ios''] False) (sampleData ''idle'' [''ios'']))
          \<lparr>configXML := Some ''<widget id=1/>''\<rparr>)
       (world0\<lparr>calls := [UpdateConfigXmlUnprocessed ''p1'' ''<widget id=1/>'']\<rparr>)
     = (Inr ''<widget id=1/>'',
        (newProject (sampleEnv ''idle'' [''ios''] False) (sampleData ''idle'' [''ios'']))
          \<lparr>configXML := Some ''<widget id=1/>''\<rparr>,
        world0\<lparr>calls := [UpdateConfigXmlUnprocessed ''p1'' ''<widget id=1/>'']\<rparr>)"
  using init_resets_configXML [where env = "sampleEnv ''idle'' [''ios''] False"
          and p = "sampleProject\<lparr>configXML := Some ''<widget id=0/>''\<rparr>" and w = world0
          and d = "sampleData ''idle'' [''ios'']" and archive = "''game.zip''"
          and link = "''https://example.com/game.zip''" and branch = "Some ''main''"
          and content = "''<widget id=1/>''"
          and v = "world0\<lparr>calls := [UpdateURLUnprocessed ''p1'' ''https://example.com/game.zip'']\<rparr>"
          and doc = "''<widget id=1/>''"]
  by (simp add: refresh_def updateZip_def updateURL_def updateRepository_def updateConfigXml_def
      initFrom_def awaitProject_def getConfigXML_def awaitText_def sampleProject_eq newProject_def
      init_def sampleEnv_def sampleData_def world0_def initCompilations_def initKeys_def
      newDate_def)

subsection \<open>Polling\<close>

lemma refresh_error:
  assumes "refresh env p w = (Inl e, p', w')"
  shows "e \<noteq> TimeLimit"
  using assms unfolding refresh_def by (auto dest: initFrom_Inl)

lemma invoke_error:
  assumes "invoke callback w = (Inl e, w')"
  shows "e \<noteq> TimeLimit"
  using assms by (auto simp: invoke_def split: option.splits)

lemma pollLoop_error:
  "pollLoop fuel env callback interval limitTime p w \<noteq> Some (Inl TimeLimit, p', w')"
proof (induction fuel arbitrary: p w)
  case 0
  then show ?case
    by (subst pollLoop.simps) (auto split: if_splits prod.splits)
next
  case (Suc n)
  show ?case
    by (subst pollLoop.simps)
       (auto split: if_splits prod.splits sum.splits dest: refresh_error invoke_error simp: Suc.IH)
qed

lemma polling_error:
  "polling fuel env callback interval limitTime p w \<noteq> Some (Inl TimeLimit, p', w')"
  by (auto simp: polling_def pollLoop_error split: prod.splits sum.splits
           dest: refresh_error invoke_error)

text \<open>
  Claim C2.  Whenever \<open>refreshUntilCompleted\<close> settles, it rejects with the time-limit
  error exactly when the loop was left through its condition and the clock, read after the
  loop, is still strictly before the limit (the first reading plus \<open>maxWaitTime\<close>); and it
  resolves exactly when the loop was left through its condition and that reading has reached
  the limit.  Every other rejection is one of \<open>refresh\<close> or of the callback.
\<close>

theorem refreshUntilCompleted_timeout_iff:
  assumes "refreshUntilCompleted fuel env callback interval maxWaitTime p w = Some (r, p', w')"
  shows "(r = Inl TimeLimit) =
           (\<exists>p3 w3. polling fuel env (case callback of None \<Rightarrow> (\<lambda>k. None) | Some f \<Rightarrow> f)
                        (case interval of None \<Rightarrow> DEFAULT_WAIT_TIME | Some i \<Rightarrow> i)
                        (clock env (reads w) + (case maxWaitTime of None \<Rightarrow> MAX_WAIT_TIME | Some m \<Rightarrow> m))
                        p (snd (dateNow env w)) = Some (Inr (), p3, w3)
                   \<and> fst (dateNow env w3)
                       < clock env (reads w) + (case maxWaitTime of None \<Rightarrow> MAX_WAIT_TIME | Some m \<Rightarrow> m))
         \<and> (r = Inr ()) =
           (\<exists>p3 w3. polling fuel env (case callback of None \<Rightarrow> (\<lambda>k. None) | Some f \<Rightarrow> f)
                        (case interval of None \<Rightarrow> DEFAULT_WAIT_TIME | Some i \<Rightarrow> i)
                        (clock env (reads w) + (case maxWaitTime of None \<Rightarrow> MAX_WAIT_TIME | Some m \<Rightarrow> m))
                        p (snd (dateNow env w)) = Some (Inr (), p3, w3)
                   \<and> clock env (reads w) + (case maxWaitTime of None \<Rightarrow> MAX_WAIT_TIME | Some m \<Rightarrow> m)
                       \<le> fst (dateNow env w3))"
proof -
  define cb where "cb = (case callback of None \<Rightarrow> (\<lambda>k. None) | Some f \<Rightarrow> f)"
  define iv where "iv = (case interval of None \<Rightarrow> DEFAULT_WAIT_TIME | Some i \<Rightarrow> i)"
  define lim where
    "lim = clock env (reads w) + (case maxWaitTime of None \<Rightarrow> MAX_WAIT_TIME | Some m \<Rightarrow> m)"
  define w0 where "w0 = snd (dateNow env w)"
  have run: "(case polling fuel env cb iv lim p w0 of
                None \<Rightarrow> None
              | Some (Inl e, p3, w3) \<Rightarrow> Some (Inl e, p3, w3)
              | Some (Inr u, p3, w3) \<Rightarrow>
                  (case dateNow env w3 of
                     (t, w4) \<Rightarrow> if t < lim then Some (Inl TimeLimit, p3, w4)
                                else Some (Inr (), p3, w4))) = Some (r, p', w')"
    using assms
    unfolding refreshUntilCompleted_def Let_def cb_def iv_def lim_def w0_def dateNow_def
    by simp
  then obtain q where q: "polling fuel env cb iv lim p w0 = Some q"
    by (cases "polling fuel env cb iv lim p w0") auto
  obtain r3 p3 w3 where q3: "q = (r3, p3, w3)"
    by (cases q) auto
  show ?thesis
  proof (cases r3)
    case (Inl e)
    with run q q3 have "r = Inl e" by simp
    moreover from Inl q q3 have "e \<noteq> TimeLimit" using polling_error [of fuel env cb iv lim p w0 p3 w3] by auto
    ultimately show ?thesis
      using q q3 Inl unfolding cb_def [symmetric] iv_def [symmetric] lim_def [symmetric] w0_def [symmetric]
      by auto
  next
    case (Inr u)
    with run q q3 show ?thesis
      unfolding cb_def [symmetric] iv_def [symmetric] lim_def [symmetric] w0_def [symmetric]
      by (auto split: prod.splits if_splits)
  qed
qed

lemma idle_eq:
  "newProject (sampleEnv ''idle'' [''android''] False) (sampleData ''idle'' [''android'']) =
     \<lparr> p_id = ''p1'', p_name = ''idle'', p_bundleID = ''com.example.game'', p_version = ''1.0.0'',
       p_origin = [(''url'', ''example.com'')],
       p_dateCompiled = Some 3000, p_dateCreated = Some 1000, p_dateUpdated = Some 2000,
       p_compilations = [(''android'', \<lparr> c_platform = ''android'', status = Completed, c_data = [] \<rparr>)],
       p_errors = [],
       p_keys = [(''android'', Some \<lparr> k_id = ''key-7'', k_platform = ''android'', k_data = [] \<rparr>)],
       p_sourceURL = ''https://example.com/source.zip'', configXML = None \<rparr>"
  by (simp add: newProject_def init_def sampleEnv_def sampleData_def
      initCompilations_def initKeys_def newDate_def)

lemma refresh_idle:
  "refresh (sampleEnv ''idle'' [''android''] False) sampleProject w =
     (Inr (), newProject (sampleEnv ''idle'' [''android''] False) (sampleData ''idle'' [''android'']),
      w\<lparr>calls := calls w @ [GetUnprocessed ''p1'']\<rparr>)"
  by (simp add: refresh_def initFrom_def awaitProject_def sampleProject_eq newProject_def init_def
      sampleEnv_def sampleData_def initCompilations_def initKeys_def newDate_def)

lemma refresh_busy:
  "refresh (sampleEnv ''busy'' [''android''] False) sampleProject w =
     (Inr (), sampleProject, w\<lparr>calls := calls w @ [GetUnprocessed ''p1'']\<rparr>)"
  by (simp add: refresh_def initFrom_def awaitProject_def sampleProject_eq init_def
      sampleEnv_def sampleData_def initCompilations_def initKeys_def newDate_def)

lemma run_idle:
  "refreshUntilCompleted 5 (sampleEnv ''idle'' [''android''] False) None (Some 50) (Some 150)
     sampleProject world0
   = Some (Inl TimeLimit,
           newProject (sampleEnv ''idle'' [''android''] False) (sampleData ''idle'' [''android'']),
           \<lparr> calls = [GetUnprocessed ''p1''], reads = 2, ticks = 1, sleeps = [] \<rparr>)"
proof -
  have clk: "clock (sampleEnv ''idle'' [''android''] False) = (\<lambda>k. 100 * int k)"
    by (simp add: sampleEnv_def)
  have idle: "\<not> isCompiling (newProject (sampleEnv ''idle'' [''android''] False)
                (sampleData ''idle'' [''android'']))"
    by (simp add: idle_eq isCompiling_def)
  show ?thesis
    by (simp add: refreshUntilCompleted_def polling_def refresh_idle invoke_def dateNow_def
        world0_def clk pollLoop.simps [of 5] idle)
qed

lemma run_busy:
  "refreshUntilCompleted 5 (sampleEnv ''busy'' [''android''] False) None (Some 50) (Some 150)
     sampleProject world0
   = Some (Inr (), sampleProject,
           \<lparr> calls = [GetUnprocessed ''p1'', GetUnprocessed ''p1''], reads = 4, ticks = 2,
             sleeps = [50] \<rparr>)"
proof -
  have clk: "clock (sampleEnv ''busy'' [''android''] False) = (\<lambda>k. 100 * int k)"
    by (simp add: sampleEnv_def)
  have busy: "isCompiling sampleProject"
    by (simp add: sampleProject_eq isCompiling_def)
  show ?thesis
    by (simp add: refreshUntilCompleted_def polling_def refresh_busy invoke_def dateNow_def
        setTimeout_def world0_def clk pollLoop.simps [of 5] pollLoop.simps [of 4] busy)
qed

theorem refreshUntilCompleted_timeout_iff_witness:
  "refreshUntilCompleted 5 (sampleEnv ''idle'' [''android''] False) None (Some 50) (Some 150)
     sampleProject world0
   = Some (Inl TimeLimit,
           newProject (sampleEnv ''idle'' [''android''] False) (sampleData ''idle'' [''android'']),
           \<lparr> calls = [GetUnprocessed ''p1''], reads = 2, ticks = 1, sleeps = [] \<rparr>)
   \<and> clock (sampleEnv ''idle'' [''android''] False) 1 < clock (sampleEnv ''idle'' [''android''] False) 0 + 150
   \<and> refreshUntilCompleted 5 (sampleEnv ''busy'' [''android''] False) None (Some 50) (Some 150)
     sampleProject world0
   = Some (Inr (), sampleProject,
           \<lparr> calls = [GetUnprocessed ''p1'', GetUnprocessed ''p1''], reads = 4, ticks = 2,
             sleeps = [50] \<rparr>)
   \<and> clock (sampleEnv ''busy'' [''android''] False) 0 + 150 \<le> clock (sampleEnv ''busy'' [''android''] False) 3"
  using refreshUntilCompleted_timeout_iff [OF run_idle] refreshUntilCompleted_timeout_iff [OF run_busy]
    run_idle run_busy
  by (simp add: sampleEnv_def)

text \<open>
  The loop cannot go on for ever once the clock reaches the limit: if the \<open>k\<close>-th reading
  after the first is at or past the limit, \<open>k\<close> rounds suffice.
\<close>

lemma refresh_reads:
  "refresh env p w = (r, p', w') \<Longrightarrow> reads w' = reads w"
  by (auto simp: refresh_def initFrom_def awaitProject_def split: sum.splits)

lemma invoke_reads:
  "invoke callback w = (r, w') \<Longrightarrow> reads w' = reads w"
  by (auto simp: invoke_def split: option.splits)

lemma pollLoop_returns:
  "limitTime \<le> clock env (reads w + k) \<Longrightarrow> k \<le> fuel
     \<Longrightarrow> pollLoop fuel env callback interval limitTime p w \<noteq> None"
proof (induction k arbitrary: fuel p w)
  case 0
  then show ?case
    by (subst pollLoop.simps) (auto simp: dateNow_def)
next
  case (Suc k)
  then obtain n where fuel: "fuel = Suc n" and kn: "k \<le> n"
    by (cases fuel) auto
  show ?case
  proof (cases "isCompiling p \<and> clock env (reads w) < limitTime")
    case False
    then show ?thesis
      by (subst pollLoop.simps) (auto simp: dateNow_def)
  next
    case True
    obtain r p' w2 where rf: "refresh env p (setTimeout interval (w\<lparr>reads := Suc (reads w)\<rparr>)) = (r, p', w2)"
      by (metis prod_cases3)
    then have r2: "reads w2 = Suc (reads w)"
      by (auto dest: refresh_reads simp: setTimeout_def)
    show ?thesis
    proof (cases r)
      case (Inl e)
      with True rf fuel show ?thesis
        by (subst pollLoop.simps) (simp add: dateNow_def)
    next
      case (Inr u)
      obtain r' w3 where iv: "invoke callback w2 = (r', w3)"
        by (metis surj_pair)
      then have r3: "reads w3 = Suc (reads w)"
        using r2 by (auto dest: invoke_reads)
      show ?thesis
      proof (cases r')
        case (Inl e)
        with True rf fuel Inr iv show ?thesis
          by (subst pollLoop.simps) (simp add: dateNow_def)
      next
        case Inr': (Inr u')
        from Suc.prems(1) r3 have "limitTime \<le> clock env (reads w3 + k)" by simp
        from Suc.IH [OF this kn]
        have "pollLoop n env callback interval limitTime p' w3 \<noteq> None" .
        with True rf fuel Inr iv Inr' show ?thesis
          by (subst pollLoop.simps) (simp add: dateNow_def)
      qed
    qed
  qed
qed

lemma refreshUntilCompleted_returns:
  assumes "clock env (reads w) + (case maxWaitTime of None \<Rightarrow> MAX_WAIT_TIME | Some m \<Rightarrow> m)
             \<le> clock env (Suc (reads w) + k)"
    and "k \<le> fuel"
  shows "refreshUntilCompleted fuel env callback interval maxWaitTime p w \<noteq> None"
proof -
  define cb where "cb = (case callback of None \<Rightarrow> (\<lambda>k. None) | Some f \<Rightarrow> f)"
  define iv where "iv = (case interval of None \<Rightarrow> DEFAULT_WAIT_TIME | Some i \<Rightarrow> i)"
  define lim where
    "lim = clock env (reads w) + (case maxWaitTime of None \<Rightarrow> MAX_WAIT_TIME | Some m \<Rightarrow> m)"
  define w0 where "w0 = w\<lparr>reads := Suc (reads w)\<rparr>"
  have "polling fuel env cb iv lim p w0 \<noteq> None"
  proof (cases "refresh env p w0")
    case (fields r p1 w1)
    then have r1: "reads w1 = Suc (reads w)"
      by (auto dest: refresh_reads simp: w0_def)
    show ?thesis
    proof (cases r)
      case (Inl e)
      with fields show ?thesis by (simp add: polling_def)
    next
      case (Inr u)
      obtain r' w2 where iv2: "invoke cb w1 = (r', w2)"
        by (metis surj_pair)
      then have r2: "reads w2 = Suc (reads w)"
        using r1 by (auto dest: invoke_reads)
      show ?thesis
      proof (cases r')
        case (Inl e)
        with fields Inr iv2 show ?thesis by (simp add: polling_def)
      next
        case Inr': (Inr u')
        from assms(1) r2 have "lim \<le> clock env (reads w2 + k)"
          by (simp add: lim_def)
        from pollLoop_returns [OF this assms(2)]
        have "pollLoop fuel env cb iv lim p1 w2 \<noteq> None" .
        with fields Inr iv2 Inr' show ?thesis by (simp add: polling_def)
      qed
    qed
  qed
  then obtain q where q: "polling fuel env cb iv lim p w0 = Some q" by auto
  have "refreshUntilCompleted fuel env callback interval maxWaitTime p w =
          (case q of (Inl e, p3, w3) \<Rightarrow> Some (Inl e, p3, w3)
              | (Inr u, p3, w3) \<Rightarrow>
                  (case dateNow env w3 of
                     (t, w4) \<Rightarrow> if t < lim then Some (Inl TimeLimit, p3, w4)
                                else Some (Inr (), p3, w4)))"
    using q
    unfolding refreshUntilCompleted_def Let_def cb_def iv_def lim_def w0_def dateNow_def
    by simp
  then show ?thesis
    by (auto split: prod.splits sum.splits)
qed

section \<open>Properties of the session\<close>

text \<open>
  Claim C8.  With no credential storage, a request that is to carry credentials fails with
  the error "API access has not been set up"; the static state and the trace are unchanged,
  so no request has been issued and the clock has not been read.
\<close>

theorem request_without_credentials:
  "request h options plugins True (api\<lparr>credentials := None\<rparr>) w
     = (Inl Unauthenticated, api\<lparr>credentials := None\<rparr>, w)
   \<and> message Unauthenticated = ''API access has not been set up''"
  by (simp add: request_def)

text \<open>
  A request that finds a storage never fails with that error, whatever the storage holds
  and whatever \<open>logout\<close> does to it; and a request whose test of the expiry is false
  sends the token it finds.
\<close>

lemma send_error:
  "send h options plugins w = (Inl e, w') \<Longrightarrow> e \<noteq> Unauthenticated"
  by (auto simp: send_def split: sum.splits)

lemma refreshAPIAccess_error:
  "refreshAPIAccess h api w = (Inl e, api', w') \<Longrightarrow> e \<noteq> Unauthenticated"
  by (auto simp: refreshAPIAccess_def Let_def split: option.splits prod.splits sum.splits
           dest: send_error)

lemma request_with_storage:
  assumes "credentials api = Some c"
  shows "fst (request h options plugins addCredentials api w) \<noteq> Inl Unauthenticated"
proof (cases addCredentials)
  case False
  then show ?thesis
    by (auto simp: request_def split: prod.splits dest: send_error)
next
  case True
  with assms show ?thesis
    by (auto simp: request_def split: prod.splits sum.splits option.splits if_splits
             dest: send_error refreshAPIAccess_error)
qed

lemma request_after_closeAPIAccess:
  assumes "credentials api = Some c" and "closeAPIAccess h api = (r, api')"
  shows "r = Inr () \<and> credentials api' = Some (logout h c)
         \<and> fst (request h options plugins True api' w) \<noteq> Inl Unauthenticated"
proof -
  from assms have "r = Inr ()" and c': "credentials api' = Some (logout h c)"
    by (auto simp: closeAPIAccess_def)
  with request_with_storage [OF c'] show ?thesis by simp
qed

lemma request_skips_refresh:
  assumes "credentials api = Some c" and "\<not> date_gt (expireDate c) (now h (dates w))"
  shows "request h options plugins True api w =
           (fst (send h (authorize (accessToken c) options) (plugins @ [Status_plugin])
                   (w\<lparr>dates := Suc (dates w)\<rparr>)),
            api,
            snd (send h (authorize (accessToken c) options) (plugins @ [Status_plugin])
                   (w\<lparr>dates := Suc (dates w)\<rparr>)))"
  using assms by (simp add: request_def newDateNow_def split: prod.splits)

text \<open>
  Claim C1, which the code does not meet: the test \<open>expireDate > new Date()\<close> is the
  wrong way round.  At 5000 ms, with credentials that expired at 1000 ms, \<open>request\<close> issues
  the request at once with the stale access token and makes no refresh; with credentials
  valid until 9000 ms it logs "Access credentials expired.", refreshes, and sends the new
  token.
\<close>

theorem request_expired_sends_stale_token:
  "request (memoryHost 5000) getTemplates [] True (session 1000) net0
     = (Inr \<lparr> res_status = 200, access_token = Some ''fresh'', refresh_token = Some ''renew2'',
              expires_in = Some 3600, res_text = [] \<rparr>,
        session 1000,
        \<lparr> sent = [(\<lparr> http_method = ''GET'', url = ''/templates'',
                      headers = Some [(''Authorization'', ''Bearer stale'')], body = None \<rparr>,
                    [Status_plugin])],
          dates = 1, console = [] \<rparr>)
   \<and> request (memoryHost 5000) getTemplates [] True (session 9000) net0
     = (Inr \<lparr> res_status = 200, access_token = Some ''fresh'', refresh_token = Some ''renew2'',
              expires_in = Some 3600, res_text = [] \<rparr>,
        \<lparr> credentials = Some \<lparr> accessToken = Some ''fresh'', refreshToken = Some ''renew2'',
                               expireDate = Some 3605000 \<rparr>,
          BASE = ''https://api.example.com'' \<rparr>,
        \<lparr> sent = [(\<lparr> http_method = ''GET'', url = ''/oauth/refresh/renew1'', headers = None,
                      body = None \<rparr>, [Parse ''json'']),
                   (\<lparr> http_method = ''GET'', url = ''/templates'',
                      headers = Some [(''Authorization'', ''Bearer fresh'')], body = None \<rparr>,
                    [Status_plugin])],
          dates = 2,
          console = [''Access credentials expired.'', ''Refreshing access credentials...'',
                     ''Access credentials refreshed.''] \<rparr>)"
  by (simp add: request_def refreshAPIAccess_def setupAPIAccess_def send_def authorize_def
      bearer_def date_gt_def newDateNow_def console_log_def memoryHost_def session_def net0_def
      getTemplates_def)

text \<open>
  Claim C3, which the code does not meet: \<open>closeAPIAccess\<close> logs the storage out and
  leaves it in place, and \<open>request\<close> tests only that a storage exists.  After a session
  has been closed, \<open>request\<close> does not fail: it sends the request with the header
  \<open>Bearer undefined\<close>, while \<open>checkAPIAccess\<close> reports no access.
\<close>

theorem request_after_close_is_sent:
  "closeAPIAccess (memoryHost 5000) (session 9000)
     = (Inr (), \<lparr> credentials = Some \<lparr> accessToken = None, refreshToken = None, expireDate = None \<rparr>,
                  BASE = ''https://api.example.com'' \<rparr>)
   \<and> request (memoryHost 5000) getTemplates [] True
       \<lparr> credentials = Some \<lparr> accessToken = None, refreshToken = None, expireDate = None \<rparr>,
         BASE = ''https://api.example.com'' \<rparr> net0
     = (Inr \<lparr> res_status = 200, access_token = Some ''fresh'', refresh_token = Some ''renew2'',
              expires_in = Some 3600, res_text = [] \<rparr>,
        \<lparr> credentials = Some \<lparr> accessToken = None, refreshToken = None, expireDate = None \<rparr>,
          BASE = ''https://api.example.com'' \<rparr>,
        \<lparr> sent = [(\<lparr> http_method = ''GET'', url = ''/templates'',
                      headers = Some [(''Authorization'', ''Bearer undefined'')], body = None \<rparr>,
                    [Status_plugin])],
          dates = 1, console = [] \<rparr>)
   \<and> checkAPIAccess
       \<lparr> credentials = Some \<lparr> accessToken = None, refreshToken = None, expireDate = None \<rparr>,
         BASE = ''https://api.example.com'' \<rparr> = False"
  by (simp add: closeAPIAccess_def request_def send_def authorize_def bearer_def date_gt_def
      newDateNow_def memoryHost_def session_def net0_def getTemplates_def checkAPIAccess_def)

end
